theory Spec2Isabelle
  imports Complex_Main
begin

section \<open>Data model\<close>

text \<open>
  The server of the arena keeps two process-wide maps in \<^verbatim>\<open>WebSocketHub\<close>
  (\<^verbatim>\<open>server/src/ws/hub.ts\<close>) and four tables behind Prisma. Every handler is an
  \<^verbatim>\<open>async\<close> method run by one event loop; a handler is modelled as one atomic
  function from state to state. A number of a message or of a table is a finite
  \<^typ>\<open>real\<close>. The handlers compare such numbers; the one place that computes with
  rounding, the throughput of \<^verbatim>\<open>handleComplete\<close>, yields a \<open>js_double\<close>: a finite value
  or an infinity of binary64.
\<close>

type_synonym js_number = real

datatype js_double = Finite real | PosInfinity | NegInfinity
type_synonym conn_id = string
type_synonym ws_id = string

subsection \<open>Client messages (\<^verbatim>\<open>ClientMessage\<close>, discriminated by \<^verbatim>\<open>type\<close>)\<close>

record register_message =
  reg_participant_id :: string
  reg_nickname :: string
  reg_pin :: string
  reg_runner :: string
  reg_model :: string

record token_message =
  tok_round :: js_number
  tok_participant_id :: string
  tok_seq :: js_number
  tok_content :: string

text \<open>\<open>cmp_model_info\<close> is the optional \<^verbatim>\<open>model_info\<close> object, held as its JSON text.\<close>

record complete_message =
  cmp_round :: js_number
  cmp_participant_id :: string
  cmp_tokens :: js_number
  cmp_latency_ms_first_token :: "js_number option"
  cmp_duration_ms :: js_number
  cmp_model_info :: "string option"

record error_message =
  err_round :: js_number
  err_participant_id :: string
  err_code :: string
  err_message :: string

datatype client_message =
    Register register_message
  | Token token_message
  | Complete complete_message
  | ClientError error_message

subsection \<open>Server messages and log lines\<close>

datatype server_message =
    Registered string
  | Challenge string js_number string js_number js_number js_number "js_number option"
  | Heartbeat int
  | ErrorMessage string

text \<open>The objects handed to \<^verbatim>\<open>broadcastToTelao\<close>.\<close>

datatype telao_message =
    TokenUpdate string js_number js_number string nat
  | Completion string js_number js_number js_number

datatype log_level = LError | LWarn | LInfo | LDebug

text \<open>
  A call of the logger: its level and its text; \<open>LogTelao\<close> is
  \<^verbatim>\<open>logger.debug({ message }, 'Broadcasting to telao')\<close> with the message it carries.
\<close>

datatype log_entry =
    LogLine log_level string
  | LogTelao telao_message

subsection \<open>Tables of the store\<close>

record session_row =
  s_id :: string
  s_pinHash :: string
  s_status :: string
  s_createdAt :: int

record participant_row =
  p_id :: string
  p_sessionId :: string
  p_nickname :: string
  p_runner :: string
  p_model :: string
  p_lastSeen :: int

record round_row =
  r_id :: string
  r_sessionId :: string
  r_index :: js_number
  r_prompt :: string
  r_maxTokens :: js_number
  r_temperature :: js_number
  r_deadlineMs :: js_number
  r_seed :: "js_number option"
  r_svgMode :: bool
  r_startedAt :: "int option"
  r_endedAt :: "int option"

text \<open>
  A row of the metrics table without its key: the table is the map from
  (\<^verbatim>\<open>roundId\<close>, \<^verbatim>\<open>participantId\<close>), its compound unique key, to the rest of the row.
\<close>

record metrics_row =
  m_tokens :: js_number
  m_latencyFirstTokenMs :: "js_number option"
  m_durationMs :: js_number
  m_tpsAvg :: "js_double option"
  m_modelInfo :: "string option"

subsection \<open>The hub and the world around it\<close>

text \<open>\<^verbatim>\<open>interface ParticipantConnection\<close>; the socket is named by an identifier.\<close>

record participant_connection =
  pc_participantId :: string
  pc_sessionId :: string
  pc_ws :: ws_id
  pc_lastSeq :: "js_number \<rightharpoonup> js_number"
  pc_lastSeen :: int

text \<open>
  \<open>connections\<close> is a JavaScript \<^verbatim>\<open>Map\<close> iterated by \<^verbatim>\<open>broadcast\<close>, so it is an
  association list in insertion order. \<open>tokenBuffer\<close> is only looked up by key.
  \<open>sent\<close> collects the frames that \<^verbatim>\<open>ws.send\<close> wrote, \<open>logged\<close> the logger's lines.
\<close>

record server_state =
  connections :: "(conn_id \<times> participant_connection) list"
  tokenBuffer :: "string \<rightharpoonup> (js_number \<rightharpoonup> string list)"
  sessions :: "session_row list"
  participants :: "participant_row list"
  rounds :: "round_row list"
  metrics :: "(string \<times> string) \<rightharpoonup> metrics_row"
  votes :: "(string \<times> string \<times> string) \<rightharpoonup> js_number"
  sent :: "(ws_id \<times> server_message) list"
  logged :: "log_entry list"

text \<open>
  What the handlers read from outside: the clock, \<^verbatim>\<open>bcrypt.compare\<close>, the sockets whose
  \<^verbatim>\<open>send\<close> throws, and whether a write to the store throws.
\<close>

record env =
  now :: int
  pinValid :: "string \<Rightarrow> string \<Rightarrow> bool"
  sendThrows :: "ws_id \<Rightarrow> bool"
  upsertThrows :: bool

definition initial_state :: server_state where
  "initial_state =
     \<lparr>connections = [], tokenBuffer = Map.empty, sessions = [], participants = [],
      rounds = [], metrics = Map.empty, votes = Map.empty, sent = [], logged = []\<rparr>"

section \<open>The hub\<close>

text \<open>\<^verbatim>\<open>Map.prototype.set\<close>: an existing key keeps its place, a new key goes last.\<close>

fun map_set :: "'k \<Rightarrow> 'v \<Rightarrow> ('k \<times> 'v) list \<Rightarrow> ('k \<times> 'v) list" where
  "map_set k v [] = [(k, v)]"
| "map_set k v (e # es) = (if fst e = k then (k, v) # es else e # map_set k v es)"

text \<open>\<^verbatim>\<open>broadcastToTelao\<close>: one debug line, nothing written to a socket.\<close>

definition broadcastToTelao :: "telao_message \<Rightarrow> server_state \<Rightarrow> server_state" where
  "broadcastToTelao message s = s\<lparr>logged := logged s @ [LogTelao message]\<rparr>"

text \<open>
  \<^verbatim>\<open>handleToken\<close>. Both levels of the buffer are created when absent, before the
  sequence check; the check compares \<open>seq\<close> with the length of the array.
\<close>

definition handleToken :: "token_message \<Rightarrow> server_state \<Rightarrow> server_state" where
  "handleToken message s =
     (let participantKey = tok_participant_id message;
          roundBuffer = (case tokenBuffer s participantKey of
                           None \<Rightarrow> Map.empty | Some rb \<Rightarrow> rb);
          tokens = (case roundBuffer (tok_round message) of
                      None \<Rightarrow> [] | Some ts \<Rightarrow> ts)
      in if tok_seq message \<noteq> real (length tokens)
         then s\<lparr>tokenBuffer :=
                   (tokenBuffer s)(participantKey \<mapsto> roundBuffer(tok_round message \<mapsto> tokens)),
                 logged := logged s @ [LogLine LWarn ''Sequence mismatch'']\<rparr>
         else broadcastToTelao
                (TokenUpdate (tok_participant_id message) (tok_round message)
                   (tok_seq message) (tok_content message) (length tokens + 1))
                (s\<lparr>tokenBuffer :=
                     (tokenBuffer s)(participantKey \<mapsto>
                        roundBuffer(tok_round message \<mapsto> tokens @ [tok_content message]))\<rparr>))"

text \<open>\<^verbatim>\<open>getCurrentRoundTokens\<close>: the participants that have an array for the round.\<close>

definition getCurrentRoundTokens :: "js_number \<Rightarrow> server_state \<Rightarrow> (string \<rightharpoonup> string list)" where
  "getCurrentRoundTokens roundIndex s =
     (\<lambda>participantId. case tokenBuffer s participantId of
                         None \<Rightarrow> None | Some rnds \<Rightarrow> rnds roundIndex)"

text \<open>The buffered stream of a (participant, round) pair; no array yet is the empty stream.\<close>

definition stream :: "server_state \<Rightarrow> string \<Rightarrow> js_number \<Rightarrow> string list" where
  "stream s p r = (case getCurrentRoundTokens r s p of None \<Rightarrow> [] | Some ts \<Rightarrow> ts)"

text \<open>A client streaming the fragments \<open>cs\<close> with the sequence numbers \<open>k, k+1, ...\<close>.\<close>

fun submit :: "string \<Rightarrow> js_number \<Rightarrow> nat \<Rightarrow> string list \<Rightarrow> server_state \<Rightarrow> server_state" where
  "submit p r k [] s = s"
| "submit p r k (c # cs) s =
     submit p r (Suc k) cs
       (handleToken \<lparr>tok_round = r, tok_participant_id = p, tok_seq = real k, tok_content = c\<rparr> s)"

text \<open>One line of the logger.\<close>

definition log_line :: "log_level \<Rightarrow> string \<Rightarrow> server_state \<Rightarrow> server_state" where
  "log_line lvl txt s = s\<lparr>logged := logged s @ [LogLine lvl txt]\<rparr>"

text \<open>
  \<^verbatim>\<open>session.findFirst({ where: { status: 'active' }, orderBy: { createdAt: 'desc' } })\<close>:
  the active session created last.
\<close>

definition findFirstActiveSession :: "session_row list \<Rightarrow> session_row option" where
  "findFirstActiveSession ss =
     (case filter (\<lambda>x. s_status x = ''active'') ss of
        [] \<Rightarrow> None
      | x # xs \<Rightarrow> Some (foldl (\<lambda>b a. if s_createdAt b < s_createdAt a then a else b) x xs))"

text \<open>
  \<^verbatim>\<open>participant.upsert\<close> of \<^verbatim>\<open>handleRegister\<close>: an existing row keeps its session
  and nickname.
\<close>

definition upsertParticipant ::
  "env \<Rightarrow> string \<Rightarrow> register_message \<Rightarrow> participant_row list \<Rightarrow> participant_row list" where
  "upsertParticipant e sessionId message ps =
     (case find (\<lambda>p. p_id p = reg_participant_id message) ps of
        None \<Rightarrow>
          ps @ [\<lparr>p_id = reg_participant_id message, p_sessionId = sessionId,
                 p_nickname = reg_nickname message, p_runner = reg_runner message,
                 p_model = reg_model message, p_lastSeen = now e\<rparr>]
      | Some _ \<Rightarrow>
          map (\<lambda>p. if p_id p = reg_participant_id message
                    then p\<lparr>p_lastSeen := now e, p_runner := reg_runner message,
                           p_model := reg_model message\<rparr>
                    else p) ps)"

text \<open>\<^verbatim>\<open>ws.send\<close>: a frame is written unless the call throws.\<close>

definition ws_send :: "env \<Rightarrow> ws_id \<Rightarrow> server_message \<Rightarrow> server_state \<Rightarrow> server_state" where
  "ws_send e ws message s =
     (if sendThrows e ws then s else s\<lparr>sent := sent s @ [(ws, message)]\<rparr>)"

text \<open>
  The \<^verbatim>\<open>catch\<close> block of \<^verbatim>\<open>handleRegister\<close>: a log line, then an error frame on the
  socket of the request.
\<close>

definition registration_failed :: "env \<Rightarrow> ws_id \<Rightarrow> server_state \<Rightarrow> server_state" where
  "registration_failed e ws s =
     ws_send e ws (ErrorMessage ''Registration failed'')
       (log_line LError ''Registration failed'' s)"

text \<open>
  A reply written inside the \<^verbatim>\<open>try\<close> block of \<^verbatim>\<open>handleRegister\<close>: a \<^verbatim>\<open>send\<close> that
  throws reaches the \<^verbatim>\<open>catch\<close> block.
\<close>

definition reply :: "env \<Rightarrow> ws_id \<Rightarrow> server_message \<Rightarrow> server_state \<Rightarrow> server_state" where
  "reply e ws message s =
     (if sendThrows e ws then registration_failed e ws s else ws_send e ws message s)"

text \<open>
  \<^verbatim>\<open>handleRegister\<close>. The connection is stored with \<^verbatim>\<open>connections.set(connId, ...)\<close>:
  no test whether \<open>connId\<close> is bound already, no look at the other connections.
\<close>

definition handleRegister ::
  "env \<Rightarrow> conn_id \<Rightarrow> ws_id \<Rightarrow> register_message \<Rightarrow> server_state \<Rightarrow> server_state" where
  "handleRegister e connId ws message s =
     (case findFirstActiveSession (sessions s) of
        None \<Rightarrow> reply e ws (ErrorMessage ''No active session'') s
      | Some session \<Rightarrow>
          if \<not> pinValid e (reg_pin message) (s_pinHash session)
          then reply e ws (ErrorMessage ''Invalid PIN'') s
          else if upsertThrows e
          then registration_failed e ws s
          else reply e ws (Registered (s_id session))
                 (log_line LInfo ''Participant registered''
                    (s\<lparr>participants := upsertParticipant e (s_id session) message (participants s),
                       connections :=
                         map_set connId
                           \<lparr>pc_participantId = reg_participant_id message,
                            pc_sessionId = s_id session, pc_ws = ws,
                            pc_lastSeq = Map.empty, pc_lastSeen = now e\<rparr>
                           (connections s)\<rparr>)))"

subsection \<open>The arithmetic of \<^verbatim>\<open>handleComplete\<close>\<close>

text \<open>
  JavaScript numbers are binary64 values, and \<^verbatim>\<open>/\<close> and \<^verbatim>\<open>*\<close> round the exact result to
  the nearest one, a tie going to the even significand. \<open>rne\<close> is that rounding to an
  integer.
\<close>

definition rne :: "real \<Rightarrow> int" where
  "rne x =
     (let f = \<lfloor>x\<rfloor>; d = x - of_int f
      in if d < 1 / 2 then f else if 1 / 2 < d then f + 1 else if even f then f else f + 1)"

text \<open>
  The least \<open>e'\<close> from \<open>e\<close> on with \<open>x < 2 ^ (e' + 1)\<close>, looking at most \<open>n\<close> steps ahead.
\<close>

fun expo :: "nat \<Rightarrow> int \<Rightarrow> real \<Rightarrow> int" where
  "expo 0 e x = e"
| "expo (Suc n) e x = (if x < 2 powi (e + 1) then e else expo n (e + 1) x)"

text \<open>
  The exponent of the binade of \<open>x\<close>: \<open>\<lfloor>log\<^sub>2 \<bar>x\<bar>\<rfloor>\<close>, but -1022 for zero and the subnormal
  numbers, and 1024 from \<open>2 ^ 1024\<close> on.
\<close>

definition binade :: "real \<Rightarrow> int" where
  "binade x = expo 2046 (- 1022) \<bar>x\<bar>"

text \<open>
  The binary64 value of an exact result: rounded to 53 significant bits (to a multiple of
  \<open>2 ^ - 1074\<close> in the subnormal range), and an infinity when the rounded value
  reaches \<open>2 ^ 1024\<close>. The two zeros of binary64 are one value here.
\<close>

definition to_double :: "real \<Rightarrow> js_double" where
  "to_double x =
     (let q = 2 powi (binade x - 52); r = of_int (rne (x / q)) * q
      in if 2 powi 1024 \<le> \<bar>r\<bar> then (if 0 < r then PosInfinity else NegInfinity)
         else Finite r)"

text \<open>\<^verbatim>\<open>a / b\<close> for finite numbers and a positive divisor.\<close>

definition js_div :: "js_number \<Rightarrow> js_number \<Rightarrow> js_double" where
  "js_div a b = to_double (a / b)"

text \<open>\<^verbatim>\<open>x * c\<close> for a finite positive number \<open>c\<close>.\<close>

definition js_mul :: "js_double \<Rightarrow> js_number \<Rightarrow> js_double" where
  "js_mul x c =
     (case x of
        Finite v \<Rightarrow> to_double (v * c)
      | PosInfinity \<Rightarrow> PosInfinity
      | NegInfinity \<Rightarrow> NegInfinity)"

text \<open>
  The constant \<^verbatim>\<open>tpsAvg\<close> of \<^verbatim>\<open>handleComplete\<close>:
  \<^verbatim>\<open>duration_ms > 0 ? (tokens / duration_ms) * 1000 : null\<close>.
\<close>

definition tpsAvg :: "js_number \<Rightarrow> js_number \<Rightarrow> js_double option" where
  "tpsAvg tokens duration_ms =
     (if duration_ms > 0 then Some (js_mul (js_div tokens duration_ms) 1000) else None)"

subsection \<open>Completion\<close>

text \<open>
  \<^verbatim>\<open>metrics.upsert\<close> of \<^verbatim>\<open>handleComplete\<close>. Without a row for the key, the \<^verbatim>\<open>create\<close>
  object is stored; a latency the message does not have is \<^verbatim>\<open>undefined\<close> there, and the
  column is null. With a row, the \<^verbatim>\<open>update\<close> object is applied to it: Prisma leaves a
  field alone whose value is \<^verbatim>\<open>undefined\<close>, so the latency of the row stays when the
  message has none, while \<^verbatim>\<open>tpsAvg\<close> and \<^verbatim>\<open>modelInfo\<close> are set, to null as well.
\<close>

definition upsertMetrics ::
  "string \<Rightarrow> complete_message \<Rightarrow> ((string \<times> string) \<rightharpoonup> metrics_row)
     \<Rightarrow> ((string \<times> string) \<rightharpoonup> metrics_row)" where
  "upsertMetrics roundId message tbl =
     (case tbl (roundId, cmp_participant_id message) of
        None \<Rightarrow>
          tbl((roundId, cmp_participant_id message) \<mapsto>
            \<lparr>m_tokens = cmp_tokens message,
             m_latencyFirstTokenMs = cmp_latency_ms_first_token message,
             m_durationMs = cmp_duration_ms message,
             m_tpsAvg = tpsAvg (cmp_tokens message) (cmp_duration_ms message),
             m_modelInfo = cmp_model_info message\<rparr>)
      | Some row \<Rightarrow>
          tbl((roundId, cmp_participant_id message) \<mapsto>
            row\<lparr>m_tokens := cmp_tokens message,
                m_latencyFirstTokenMs :=
                  (case cmp_latency_ms_first_token message of
                     None \<Rightarrow> m_latencyFirstTokenMs row | Some l \<Rightarrow> Some l),
                m_durationMs := cmp_duration_ms message,
                m_tpsAvg := tpsAvg (cmp_tokens message) (cmp_duration_ms message),
                m_modelInfo := cmp_model_info message\<rparr>))"

text \<open>
  \<^verbatim>\<open>handleComplete\<close>: the round is the first row whose index is the message's round;
  the metrics row of (round id, participant) is created or updated.
\<close>

definition handleComplete :: "env \<Rightarrow> complete_message \<Rightarrow> server_state \<Rightarrow> server_state" where
  "handleComplete e message s =
     (case find (\<lambda>r. r_index r = cmp_round message) (rounds s) of
        None \<Rightarrow> log_line LError ''Round not found'' s
      | Some rnd \<Rightarrow>
          if upsertThrows e then log_line LError ''Failed to record completion'' s
          else broadcastToTelao
                 (Completion (cmp_participant_id message) (cmp_round message)
                    (cmp_tokens message) (cmp_duration_ms message))
                 (log_line LInfo ''Completion recorded''
                    (s\<lparr>metrics := upsertMetrics (r_id rnd) message (metrics s)\<rparr>)))"

subsection \<open>Dispatch, disconnection and broadcast\<close>

text \<open>\<^verbatim>\<open>handleMessage\<close>: the dispatch on the message type.\<close>

definition handleMessage ::
  "env \<Rightarrow> conn_id \<Rightarrow> ws_id \<Rightarrow> client_message \<Rightarrow> server_state \<Rightarrow> server_state" where
  "handleMessage e connId ws message s =
     (case message of
        Register m \<Rightarrow> handleRegister e connId ws m s
      | Token m \<Rightarrow> handleToken m s
      | Complete m \<Rightarrow> handleComplete e m s
      | ClientError m \<Rightarrow> log_line LError ''Client error'' s)"

definition handleDisconnection :: "conn_id \<Rightarrow> server_state \<Rightarrow> server_state" where
  "handleDisconnection connId s =
     (case map_of (connections s) connId of
        None \<Rightarrow> s
      | Some conn \<Rightarrow>
          (log_line LInfo ''Participant disconnected'' s)
            \<lparr>connections := filter (\<lambda>kv. fst kv \<noteq> connId) (connections s)\<rparr>)"

text \<open>
  The loop of \<^verbatim>\<open>broadcast\<close> over \<^verbatim>\<open>connections.values()\<close>: each \<^verbatim>\<open>send\<close> in its own
  \<^verbatim>\<open>try\<close>; a throw is logged and the loop goes on.
\<close>

fun send_all ::
  "env \<Rightarrow> server_message \<Rightarrow> participant_connection list \<Rightarrow> server_state \<Rightarrow> server_state" where
  "send_all e payload [] s = s"
| "send_all e payload (conn # conns) s =
     send_all e payload conns
       (if sendThrows e (pc_ws conn) then log_line LError ''Broadcast failed'' s
        else s\<lparr>sent := sent s @ [(pc_ws conn, payload)]\<rparr>)"

text \<open>
  \<^verbatim>\<open>broadcast\<close>: the payload is made once, before the loop. A frame is identified
  with the message whose JSON text it is.
\<close>

definition broadcast :: "env \<Rightarrow> server_message \<Rightarrow> server_state \<Rightarrow> server_state" where
  "broadcast e message s =
     (let payload = message in send_all e payload (map snd (connections s)) s)"

section \<open>The round manager (\<^verbatim>\<open>server/src/core/rounds.ts\<close>)\<close>

text \<open>\<^verbatim>\<open>throw new Error(text)\<close>.\<close>

datatype error = Error string

record create_round_params =
  cr_sessionId :: string
  cr_prompt :: string
  cr_maxTokens :: "js_number option"
  cr_temperature :: "js_number option"
  cr_deadlineMs :: "js_number option"
  cr_seed :: "js_number option"
  cr_svgMode :: "bool option"

text \<open>The rounds that \<^verbatim>\<open>include: { rounds: true }\<close> loads with a session.\<close>

definition session_rounds :: "string \<Rightarrow> server_state \<Rightarrow> round_row list" where
  "session_rounds sessionId s = filter (\<lambda>r. r_sessionId r = sessionId) (rounds s)"

text \<open>
  \<^verbatim>\<open>createRound\<close>. The store makes the identifier of the new row; it is the argument
  \<open>newId\<close>. A new row has no start and no end timestamp. Each operation of the manager
  returns its result, or the error it throws, and the state it leaves.
\<close>

definition createRound ::
  "string \<Rightarrow> create_round_params \<Rightarrow> server_state \<Rightarrow> (error + round_row) \<times> server_state" where
  "createRound newId params s =
     (case find (\<lambda>x. s_id x = cr_sessionId params) (sessions s) of
        None \<Rightarrow> (Inl (Error ''Session not found''), s)
      | Some session \<Rightarrow>
          let nextIndex = real (length (session_rounds (s_id session) s)) + 1;
              rnd = \<lparr>r_id = newId, r_sessionId = cr_sessionId params, r_index = nextIndex,
                     r_prompt = cr_prompt params,
                     r_maxTokens = (case cr_maxTokens params of None \<Rightarrow> 400 | Some v \<Rightarrow> v),
                     r_temperature = (case cr_temperature params of None \<Rightarrow> 0.8 | Some v \<Rightarrow> v),
                     r_deadlineMs = (case cr_deadlineMs params of None \<Rightarrow> 90000 | Some v \<Rightarrow> v),
                     r_seed = cr_seed params,
                     r_svgMode = (case cr_svgMode params of None \<Rightarrow> False | Some v \<Rightarrow> v),
                     r_startedAt = None, r_endedAt = None\<rparr>
          in (Inr rnd, log_line LInfo ''Round created'' (s\<lparr>rounds := rounds s @ [rnd]\<rparr>)))"

text \<open>\<^verbatim>\<open>round.update({ where: { id }, data })\<close>.\<close>

definition update_round ::
  "string \<Rightarrow> (round_row \<Rightarrow> round_row) \<Rightarrow> server_state \<Rightarrow> server_state" where
  "update_round roundId f s =
     s\<lparr>rounds := map (\<lambda>r. if r_id r = roundId then f r else r) (rounds s)\<rparr>"

definition startRound ::
  "env \<Rightarrow> string \<Rightarrow> server_state \<Rightarrow> (error + round_row) \<times> server_state" where
  "startRound e roundId s =
     (case find (\<lambda>r. r_id r = roundId) (rounds s) of
        None \<Rightarrow> (Inl (Error ''Round not found''), s)
      | Some rnd \<Rightarrow>
          if r_startedAt rnd \<noteq> None then (Inl (Error ''Round already started''), s)
          else
            (Inr (rnd\<lparr>r_startedAt := Some (now e)\<rparr>),
             log_line LInfo ''Round started''
               (broadcast e
                  (Challenge (r_sessionId rnd) (r_index rnd) (r_prompt rnd) (r_maxTokens rnd)
                     (r_temperature rnd) (r_deadlineMs rnd) (r_seed rnd))
                  (update_round roundId (\<lambda>r. r\<lparr>r_startedAt := Some (now e)\<rparr>) s))))"

definition stopRound ::
  "env \<Rightarrow> string \<Rightarrow> server_state \<Rightarrow> (error + round_row) \<times> server_state" where
  "stopRound e roundId s =
     (case find (\<lambda>r. r_id r = roundId) (rounds s) of
        None \<Rightarrow> (Inl (Error ''Round not found''), s)
      | Some rnd \<Rightarrow>
          if r_startedAt rnd = None then (Inl (Error ''Round not started''), s)
          else if r_endedAt rnd \<noteq> None then (Inl (Error ''Round already ended''), s)
          else
            (Inr (rnd\<lparr>r_endedAt := Some (now e)\<rparr>),
             log_line LInfo ''Round stopped''
               (update_round roundId (\<lambda>r. r\<lparr>r_endedAt := Some (now e)\<rparr>) s)))"

text \<open>The three states of a round, read from its two timestamps.\<close>

datatype round_state = Pending | Active | Ended

definition state_of :: "round_row \<Rightarrow> round_state" where
  "state_of r =
     (if r_startedAt r = None then Pending
      else if r_endedAt r = None then Active else Ended)"

section \<open>Votes (\<^verbatim>\<open>POST /votes\<close> of the routes)\<close>

record cast_vote_body =
  vb_roundId :: string
  vb_participantId :: string
  vb_score :: js_number

text \<open>\<^verbatim>\<open>CastVoteSchema\<close>: \<^verbatim>\<open>score: z.number().min(1).max(5)\<close>, both bounds inclusive.\<close>

definition CastVoteSchema :: "cast_vote_body \<Rightarrow> bool" where
  "CastVoteSchema body = (1 \<le> vb_score body \<and> vb_score body \<le> 5)"

datatype vote_error = ZodError | InvalidScore | RoundNotFound

record cast_vote_params =
  cv_roundId :: string
  cv_voterId :: string
  cv_participantId :: string
  cv_score :: js_number

definition is_integer :: "js_number \<Rightarrow> bool" where
  "is_integer x = (of_int \<lfloor>x\<rfloor> = x)"

text \<open>
  Modelled from the spec: \<^verbatim>\<open>VoteManager.castVote\<close> (\<^verbatim>\<open>server/src/core/votes.ts\<close>) is
  not among the sources; only its call in the route is. The spec: the score must be an
  integer in [1,5], else \<open>InvalidScore\<close>; the round must exist, else \<open>RoundNotFound\<close>; the
  voter identity is a stable hash of the client's network origin (the argument
  \<open>voterHash\<close>); a second vote of the same (voter, round, participant) overwrites.
\<close>

definition castVote ::
  "(string \<Rightarrow> string) \<Rightarrow> cast_vote_params \<Rightarrow> server_state \<Rightarrow> (vote_error + js_number) \<times> server_state" where
  "castVote voterHash v s =
     (if \<not> (is_integer (cv_score v) \<and> 1 \<le> cv_score v \<and> cv_score v \<le> 5)
      then (Inl InvalidScore, s)
      else if find (\<lambda>r. r_id r = cv_roundId v) (rounds s) = None
      then (Inl RoundNotFound, s)
      else (Inr (cv_score v),
            s\<lparr>votes := (votes s)((cv_roundId v, voterHash (cv_voterId v), cv_participantId v)
                          \<mapsto> cv_score v)\<rparr>))"

text \<open>
  The route: \<^verbatim>\<open>CastVoteSchema.parse\<close> throws on a body it refuses; the voter is the
  address of the request.
\<close>

definition post_votes ::
  "(string \<Rightarrow> string) \<Rightarrow> string \<Rightarrow> cast_vote_body \<Rightarrow> server_state
     \<Rightarrow> (vote_error + js_number) \<times> server_state" where
  "post_votes voterHash ip body s =
     (if \<not> CastVoteSchema body then (Inl ZodError, s)
      else castVote voterHash
             \<lparr>cv_roundId = vb_roundId body, cv_voterId = ip,
              cv_participantId = vb_participantId body, cv_score = vb_score body\<rparr> s)"

section \<open>Sample worlds\<close>

text \<open>
  An environment where no call throws and a PIN is valid when it is the stored hash; a
  store with one active session; and a participant registered in it on one connection.
\<close>

definition plain_env :: env where
  "plain_env = \<lparr>now = 0, pinValid = (\<lambda>pin h. pin = h), sendThrows = (\<lambda>ws. False),
                 upsertThrows = False\<rparr>"

definition one_session :: server_state where
  "one_session =
     initial_state\<lparr>sessions :=
       [\<lparr>s_id = ''s1'', s_pinHash = ''123456'', s_status = ''active'', s_createdAt = 0\<rparr>]\<rparr>"

definition register_of :: "string \<Rightarrow> register_message" where
  "register_of p = \<lparr>reg_participant_id = p, reg_nickname = p, reg_pin = ''123456'',
                     reg_runner = ''mock'', reg_model = ''m''\<rparr>"

definition alice_bound :: server_state where
  "alice_bound = handleRegister plain_env ''conn-1'' ''ws-1'' (register_of ''alice'') one_session"

text \<open>
  A request for a round of ten tokens in a session; the first round \<open>r1\<close> of the
  active session, pending, then started, then stopped; and a store whose only session
  has ended.
\<close>

definition round_params :: "string \<Rightarrow> create_round_params" where
  "round_params sessionId =
     \<lparr>cr_sessionId = sessionId, cr_prompt = ''p'', cr_maxTokens = Some 10,
      cr_temperature = None, cr_deadlineMs = None, cr_seed = None, cr_svgMode = None\<rparr>"

definition the_round :: round_row where
  "the_round =
     \<lparr>r_id = ''r1'', r_sessionId = ''s1'', r_index = 1, r_prompt = ''p'', r_maxTokens = 10,
      r_temperature = 0.8, r_deadlineMs = 90000, r_seed = None, r_svgMode = False,
      r_startedAt = None, r_endedAt = None\<rparr>"

definition round_pending :: server_state where
  "round_pending = snd (createRound ''r1'' (round_params ''s1'') one_session)"

definition round_active :: server_state where
  "round_active = snd (startRound (plain_env\<lparr>now := 5\<rparr>) ''r1'' round_pending)"

definition round_ended :: server_state where
  "round_ended = snd (stopRound (plain_env\<lparr>now := 9\<rparr>) ''r1'' round_active)"

definition ended_session :: server_state where
  "ended_session =
     initial_state\<lparr>sessions :=
       [\<lparr>s_id = ''s0'', s_pinHash = ''123456'', s_status = ''ended'', s_createdAt = 0\<rparr>]\<rparr>"

text \<open>
  After \<open>alice\<close> on \<open>conn-1\<close>: the same participant registers on a second connection;
  another participant registers on the connection that is bound already; and three
  participants on three connections, with an environment where the second socket throws.
\<close>

definition alice_twice :: server_state where
  "alice_twice = handleRegister plain_env ''conn-2'' ''ws-2'' (register_of ''alice'') alice_bound"

definition conn1_again :: server_state where
  "conn1_again = handleRegister plain_env ''conn-1'' ''ws-1'' (register_of ''bob'') alice_bound"

definition three_bound :: server_state where
  "three_bound =
     handleRegister plain_env ''conn-3'' ''ws-3'' (register_of ''carol'')
       (handleRegister plain_env ''conn-2'' ''ws-2'' (register_of ''bob'') alice_bound)"

definition ws2_throws :: env where
  "ws2_throws = plain_env\<lparr>sendThrows := (\<lambda>ws. ws = ''ws-2'')\<rparr>"


text \<open>A vote for \<open>alice\<close> in the round \<open>r1\<close> from one address, with the identity as hash.\<close>

definition vote_of :: "js_number \<Rightarrow> cast_vote_params" where
  "vote_of x = \<lparr>cv_roundId = ''r1'', cv_voterId = ''10.0.0.7'', cv_participantId = ''alice'',
                 cv_score = x\<rparr>"

definition body_of :: "js_number \<Rightarrow> cast_vote_body" where
  "body_of x = \<lparr>vb_roundId = ''r1'', vb_participantId = ''alice'', vb_score = x\<rparr>"

section \<open>Token sequencing\<close>

lemma stream_handleToken:
  "stream (handleToken m s) p r =
     (if p = tok_participant_id m \<and> r = tok_round m
         \<and> tok_seq m = real (length (stream s p r))
      then stream s p r @ [tok_content m] else stream s p r)"
  by (auto simp: stream_def getCurrentRoundTokens_def handleToken_def Let_def
        broadcastToTelao_def split: option.splits)

lemma stream_submit:
  "stream (submit p r (length (stream s p r)) cs s) p r = stream s p r @ cs"
proof (induction cs arbitrary: s)
  case Nil
  show ?case by simp
next
  case (Cons c cs)
  let ?m = "\<lparr>tok_round = r, tok_participant_id = p,
             tok_seq = real (length (stream s p r)), tok_content = c\<rparr>"
  have step: "stream (handleToken ?m s) p r = stream s p r @ [c]"
    by (simp add: stream_handleToken)
  have "stream (submit p r (length (stream (handleToken ?m s) p r)) cs (handleToken ?m s)) p r
          = stream (handleToken ?m s) p r @ cs"
    by (rule Cons.IH)
  with step show ?case by simp
qed

lemma snapshot_stream:
  "stream s p r \<noteq> [] \<Longrightarrow> getCurrentRoundTokens r s p = Some (stream s p r)"
  by (simp add: stream_def split: option.splits)

text \<open>
  What a refused token leaves in the snapshot: the entry of its own pair, which is the
  stream as it was (the empty array, if the pair had none); every other entry as before.
\<close>

lemma snapshot_handleToken_refused:
  "tok_seq m \<noteq> real (length (stream s (tok_participant_id m) (tok_round m))) \<Longrightarrow>
   getCurrentRoundTokens r (handleToken m s) p =
     (if p = tok_participant_id m \<and> r = tok_round m then Some (stream s p r)
      else getCurrentRoundTokens r s p)"
  by (auto simp: stream_def getCurrentRoundTokens_def handleToken_def Let_def
        split: option.splits)

text \<open>
  Claim C1. A token message is appended to the stream of its (participant, round) pair
  exactly when its \<open>seq\<close> is the length of that stream, which starts at 0; with any
  other \<open>seq\<close>, lower or higher, every stream keeps its content (the handler may have
  created an empty array for the pair by then). So the fragments sent with the numbers
  0, 1, ..., n-1 in order, to a pair whose stream is empty, are the stream of the pair
  afterwards, in order, and the snapshot of the round holds them for the participant.
\<close>

theorem token_sequencer_append:
  "stream (handleToken m s) (tok_participant_id m) (tok_round m) =
     (if tok_seq m = real (length (stream s (tok_participant_id m) (tok_round m)))
      then stream s (tok_participant_id m) (tok_round m) @ [tok_content m]
      else stream s (tok_participant_id m) (tok_round m))
   \<and> (tok_seq m \<noteq> real (length (stream s (tok_participant_id m) (tok_round m)))
        \<longrightarrow> (\<forall>p' r'. stream (handleToken m s) p' r' = stream s p' r'))
   \<and> (stream s p r = []
        \<longrightarrow> stream (submit p r 0 cs s) p r = cs
          \<and> (cs \<noteq> [] \<longrightarrow> getCurrentRoundTokens r (submit p r 0 cs s) p = Some cs))"
proof (intro conjI impI allI)
  show "stream (handleToken m s) (tok_participant_id m) (tok_round m) =
     (if tok_seq m = real (length (stream s (tok_participant_id m) (tok_round m)))
      then stream s (tok_participant_id m) (tok_round m) @ [tok_content m]
      else stream s (tok_participant_id m) (tok_round m))"
    by (simp add: stream_handleToken)
next
  fix p' r'
  assume "tok_seq m \<noteq> real (length (stream s (tok_participant_id m) (tok_round m)))"
  then show "stream (handleToken m s) p' r' = stream s p' r'"
    by (auto simp: stream_handleToken)
next
  assume e: "stream s p r = []"
  have "stream (submit p r (length (stream s p r)) cs s) p r = stream s p r @ cs"
    by (rule stream_submit)
  with e show a: "stream (submit p r 0 cs s) p r = cs" by simp
  assume "cs \<noteq> []"
  with a show "getCurrentRoundTokens r (submit p r 0 cs s) p = Some cs"
    using snapshot_stream [of "submit p r 0 cs s" p r] by simp
qed

theorem token_sequencer_append_witness:
  "getCurrentRoundTokens 1 (submit ''p1'' 1 0 [''a'', ''b'', ''c''] initial_state) ''p1''
     = Some [''a'', ''b'', ''c'']
   \<and> stream (handleToken \<lparr>tok_round = 1, tok_participant_id = ''p1'', tok_seq = 5,
                          tok_content = ''x''\<rparr> initial_state) ''p1'' 1 = []
   \<and> stream (handleToken \<lparr>tok_round = 1, tok_participant_id = ''p1'', tok_seq = 0,
                          tok_content = ''x''\<rparr> initial_state) ''p1'' 1 = [''x'']"
proof -
  have e: "stream initial_state ''p1'' 1 = []"
    by (simp add: stream_def getCurrentRoundTokens_def initial_state_def)
  show ?thesis
    using token_sequencer_append
            [of "\<lparr>tok_round = 1, tok_participant_id = ''p1'', tok_seq = 5, tok_content = ''x''\<rparr>"
                initial_state "''p1''" 1 "[''a'', ''b'', ''c'']"]
          token_sequencer_append
            [of "\<lparr>tok_round = 1, tok_participant_id = ''p1'', tok_seq = 0, tok_content = ''x''\<rparr>"
                initial_state "''p1''" 1 "[]"]
          e
    by simp
qed

section \<open>The sample worlds, evaluated\<close>

lemma findFirstActiveSession_one_session:
  "findFirstActiveSession (sessions one_session) =
     Some \<lparr>s_id = ''s1'', s_pinHash = ''123456'', s_status = ''active'', s_createdAt = 0\<rparr>"
  by (simp add: findFirstActiveSession_def one_session_def initial_state_def)

lemma connections_alice_bound:
  "connections alice_bound =
     [(''conn-1'', \<lparr>pc_participantId = ''alice'', pc_sessionId = ''s1'', pc_ws = ''ws-1'',
                    pc_lastSeq = Map.empty, pc_lastSeen = 0\<rparr>)]"
  by (simp add: alice_bound_def handleRegister_def findFirstActiveSession_one_session
        plain_env_def register_of_def reply_def ws_send_def log_line_def)
     (simp add: one_session_def initial_state_def)

lemma tokenBuffer_alice_bound: "tokenBuffer alice_bound = Map.empty"
  by (simp add: alice_bound_def handleRegister_def findFirstActiveSession_one_session
        plain_env_def register_of_def reply_def ws_send_def log_line_def)
     (simp add: one_session_def initial_state_def)

lemma sent_alice_bound: "sent alice_bound = [(''ws-1'', Registered ''s1'')]"
  by (simp add: alice_bound_def handleRegister_def findFirstActiveSession_one_session
        plain_env_def register_of_def reply_def ws_send_def log_line_def)
     (simp add: one_session_def initial_state_def)

lemma logged_alice_bound: "logged alice_bound = [LogLine LInfo ''Participant registered'']"
  by (simp add: alice_bound_def handleRegister_def findFirstActiveSession_one_session
        plain_env_def register_of_def reply_def ws_send_def log_line_def)
     (simp add: one_session_def initial_state_def)

section \<open>What the token handler reads and writes\<close>

lemma stream_empty_buffer: "tokenBuffer s = Map.empty \<Longrightarrow> stream s p r = []"
  by (simp add: stream_def getCurrentRoundTokens_def)

lemma handleMessage_Token: "handleMessage e connId ws (Token m) s = handleToken m s"
  by (simp add: handleMessage_def)

lemma tokenBuffer_handleToken_cong:
  "tokenBuffer s' = tokenBuffer s \<Longrightarrow> tokenBuffer (handleToken m s') = tokenBuffer (handleToken m s)"
  by (simp add: handleToken_def Let_def broadcastToTelao_def)

lemma stream_cong: "tokenBuffer s' = tokenBuffer s \<Longrightarrow> stream s' p r = stream s p r"
  by (simp add: stream_def getCurrentRoundTokens_def)

lemma sent_handleToken: "sent (handleToken m s) = sent s"
  by (simp add: handleToken_def Let_def broadcastToTelao_def)

lemma logged_handleToken:
  "logged (handleToken m s) =
     logged s @
       [if tok_seq m = real (length (stream s (tok_participant_id m) (tok_round m)))
        then LogTelao (TokenUpdate (tok_participant_id m) (tok_round m) (tok_seq m)
                         (tok_content m)
                         (length (stream s (tok_participant_id m) (tok_round m)) + 1))
        else LogLine LWarn ''Sequence mismatch'']"
  by (simp add: handleToken_def Let_def broadcastToTelao_def stream_def
        getCurrentRoundTokens_def split: option.splits)

text \<open>
  Claim C3, as stated: a token message on an unbound connection, or for a participant
  other than the bound one, is rejected and changes no token buffer. It fails: with no
  connection bound at all, and on the connection bound to \<open>alice\<close> with a message for
  \<open>bob\<close>, the fragment is appended.
\<close>

theorem token_requires_binding_counterexample:
  "connections initial_state = []
   \<and> stream (handleMessage plain_env ''conn-9'' ''ws-9''
               (Token \<lparr>tok_round = 1, tok_participant_id = ''bob'', tok_seq = 0,
                       tok_content = ''x''\<rparr>) initial_state) ''bob'' 1 = [''x'']
   \<and> map (\<lambda>kv. (fst kv, pc_participantId (snd kv))) (connections alice_bound)
       = [(''conn-1'', ''alice'')]
   \<and> stream (handleMessage plain_env ''conn-1'' ''ws-1''
               (Token \<lparr>tok_round = 1, tok_participant_id = ''bob'', tok_seq = 0,
                       tok_content = ''x''\<rparr>) alice_bound) ''bob'' 1 = [''x'']"
proof -
  have a: "stream initial_state ''bob'' 1 = []"
    by (rule stream_empty_buffer) (simp add: initial_state_def)
  have b: "stream alice_bound ''bob'' 1 = []"
    by (rule stream_empty_buffer) (rule tokenBuffer_alice_bound)
  show ?thesis
    by (simp add: handleMessage_Token stream_handleToken a b connections_alice_bound)
       (simp add: initial_state_def)
qed

text \<open>
  Claim C3, amended: a token message is processed without looking at the connection it
  came on. The handler is the same function of the message and the state for every
  connection, and its token buffer does not depend on the registry: a message whose
  \<open>seq\<close> is the length of the stream of (its participant, its round) is appended
  whether or not the connection is bound, and whoever it is bound to.
\<close>

theorem token_ignores_binding:
  "handleMessage e connId ws (Token m) s = handleToken m s
   \<and> tokenBuffer (handleMessage e' connId' ws' (Token m) (s\<lparr>connections := cs\<rparr>))
       = tokenBuffer (handleMessage e connId ws (Token m) s)
   \<and> (tok_seq m = real (length (stream s (tok_participant_id m) (tok_round m)))
        \<longrightarrow> stream (handleMessage e connId ws (Token m) (s\<lparr>connections := cs\<rparr>))
              (tok_participant_id m) (tok_round m)
            = stream s (tok_participant_id m) (tok_round m) @ [tok_content m])"
proof (intro conjI impI)
  show "handleMessage e connId ws (Token m) s = handleToken m s"
    by (rule handleMessage_Token)
  show "tokenBuffer (handleMessage e' connId' ws' (Token m) (s\<lparr>connections := cs\<rparr>))
          = tokenBuffer (handleMessage e connId ws (Token m) s)"
    unfolding handleMessage_Token by (rule tokenBuffer_handleToken_cong) simp
  assume "tok_seq m = real (length (stream s (tok_participant_id m) (tok_round m)))"
  moreover have "stream (s\<lparr>connections := cs\<rparr>) (tok_participant_id m) (tok_round m)
                   = stream s (tok_participant_id m) (tok_round m)"
    by (rule stream_cong) simp
  ultimately show "stream (handleMessage e connId ws (Token m) (s\<lparr>connections := cs\<rparr>))
              (tok_participant_id m) (tok_round m)
            = stream s (tok_participant_id m) (tok_round m) @ [tok_content m]"
    by (simp add: handleMessage_Token stream_handleToken)
qed

theorem token_ignores_binding_witness:
  "stream (handleMessage plain_env ''conn-1'' ''ws-1''
             (Token \<lparr>tok_round = 1, tok_participant_id = ''bob'', tok_seq = 0,
                     tok_content = ''x''\<rparr>) (alice_bound\<lparr>connections := []\<rparr>)) ''bob'' 1
     = [''x'']"
proof -
  have b: "stream alice_bound ''bob'' 1 = []"
    by (rule stream_empty_buffer) (rule tokenBuffer_alice_bound)
  show ?thesis
    using token_ignores_binding
            [of plain_env "''conn-1''" "''ws-1''"
                "\<lparr>tok_round = 1, tok_participant_id = ''bob'', tok_seq = 0, tok_content = ''x''\<rparr>"
                alice_bound plain_env "''conn-1''" "''ws-1''" "[]",
             THEN conjunct2, THEN conjunct2]
    by (simp add: b)
qed

text \<open>
  Claim C4. With \<open>alice\<close> registered on a connection whose socket accepts writes, her
  token with \<open>seq\<close> 0 is accepted: the \<open>token_update\<close> object goes to the logger and no
  frame is written to any socket (\<open>sent\<close> still holds the reply to the registration
  only).
\<close>

theorem token_update_only_logged:
  "sent (handleMessage plain_env ''conn-1'' ''ws-1''
           (Token \<lparr>tok_round = 1, tok_participant_id = ''alice'', tok_seq = 0,
                   tok_content = ''x''\<rparr>) alice_bound)
     = [(''ws-1'', Registered ''s1'')]
   \<and> logged (handleMessage plain_env ''conn-1'' ''ws-1''
           (Token \<lparr>tok_round = 1, tok_participant_id = ''alice'', tok_seq = 0,
                   tok_content = ''x''\<rparr>) alice_bound)
     = [LogLine LInfo ''Participant registered'',
        LogTelao (TokenUpdate ''alice'' 1 0 ''x'' 1)]
   \<and> stream (handleMessage plain_env ''conn-1'' ''ws-1''
           (Token \<lparr>tok_round = 1, tok_participant_id = ''alice'', tok_seq = 0,
                   tok_content = ''x''\<rparr>) alice_bound) ''alice'' 1 = [''x'']"
proof -
  have b: "stream alice_bound ''alice'' 1 = []"
    by (rule stream_empty_buffer) (rule tokenBuffer_alice_bound)
  show ?thesis
    by (simp add: handleMessage_Token sent_handleToken logged_handleToken stream_handleToken
          b sent_alice_bound logged_alice_bound)
qed

text \<open>
  Claim C10. The token handler never reads the table of rounds: its token buffer is the
  same whatever rounds exist, so for every round number, also one of no round that was
  ever created, a message whose \<open>seq\<close> is the length of the stream is appended, and the
  first one creates the buffer of the pair.
\<close>

theorem token_ignores_rounds:
  "tokenBuffer (handleToken m (s\<lparr>rounds := rs\<rparr>)) = tokenBuffer (handleToken m s)
   \<and> (tok_seq m = real (length (stream s (tok_participant_id m) (tok_round m)))
        \<longrightarrow> stream (handleToken m (s\<lparr>rounds := rs\<rparr>)) (tok_participant_id m) (tok_round m)
            = stream s (tok_participant_id m) (tok_round m) @ [tok_content m])
   \<and> (tokenBuffer s (tok_participant_id m) = None \<and> tok_seq m = 0
        \<longrightarrow> getCurrentRoundTokens (tok_round m) (handleToken m (s\<lparr>rounds := rs\<rparr>))
              (tok_participant_id m) = Some [tok_content m])"
proof (intro conjI impI)
  show "tokenBuffer (handleToken m (s\<lparr>rounds := rs\<rparr>)) = tokenBuffer (handleToken m s)"
    by (rule tokenBuffer_handleToken_cong) simp
  have eq: "stream (s\<lparr>rounds := rs\<rparr>) (tok_participant_id m) (tok_round m)
              = stream s (tok_participant_id m) (tok_round m)"
    by (rule stream_cong) simp
  {
    assume "tok_seq m = real (length (stream s (tok_participant_id m) (tok_round m)))"
    with eq show "stream (handleToken m (s\<lparr>rounds := rs\<rparr>)) (tok_participant_id m) (tok_round m)
            = stream s (tok_participant_id m) (tok_round m) @ [tok_content m]"
      by (simp add: stream_handleToken)
  }
  assume "tokenBuffer s (tok_participant_id m) = None \<and> tok_seq m = 0"
  then show "getCurrentRoundTokens (tok_round m) (handleToken m (s\<lparr>rounds := rs\<rparr>))
              (tok_participant_id m) = Some [tok_content m]"
    by (simp add: getCurrentRoundTokens_def handleToken_def Let_def broadcastToTelao_def)
qed

theorem token_ignores_rounds_witness:
  "rounds initial_state = []
   \<and> getCurrentRoundTokens 42
        (handleToken \<lparr>tok_round = 42, tok_participant_id = ''alice'', tok_seq = 0,
                       tok_content = ''x''\<rparr> initial_state) ''alice'' = Some [''x'']"
proof -
  have "initial_state\<lparr>rounds := []\<rparr> = initial_state"
    by (simp add: initial_state_def)
  then show ?thesis
    using token_ignores_rounds
            [where m = "\<lparr>tok_round = 42, tok_participant_id = ''alice'', tok_seq = 0,
                          tok_content = ''x''\<rparr>"
                 and s = initial_state and rs = "[]"]
    by (simp add: initial_state_def)
qed

section \<open>The life of a round\<close>

lemma rounds_log_line: "rounds (log_line lvl txt s) = rounds s"
  by (simp add: log_line_def)

lemma rounds_send_all: "rounds (send_all e payload conns s) = rounds s"
  by (induction conns arbitrary: s) (simp_all add: rounds_log_line)

lemma rounds_broadcast: "rounds (broadcast e message s) = rounds s"
  by (simp add: broadcast_def rounds_send_all)

lemma find_update_round:
  "\<forall>r. r_id (f r) = r_id r \<Longrightarrow>
   find (\<lambda>r. r_id r = roundId) (map (\<lambda>r. if r_id r = roundId then f r else r) rs)
     = map_option f (find (\<lambda>r. r_id r = roundId) rs)"
  by (induction rs) simp_all

lemma find_rounds_update_round:
  "\<forall>r. r_id (f r) = r_id r \<Longrightarrow>
   find (\<lambda>r. r_id r = roundId) (rounds (update_round roundId f s))
     = map_option f (find (\<lambda>r. r_id r = roundId) (rounds s))"
  by (simp add: update_round_def find_update_round)

lemma startRound_found:
  "find (\<lambda>r. r_id r = roundId) (rounds s) = Some rnd \<Longrightarrow>
   startRound e roundId s =
     (if r_startedAt rnd \<noteq> None then (Inl (Error ''Round already started''), s)
      else (Inr (rnd\<lparr>r_startedAt := Some (now e)\<rparr>),
            log_line LInfo ''Round started''
              (broadcast e
                 (Challenge (r_sessionId rnd) (r_index rnd) (r_prompt rnd) (r_maxTokens rnd)
                    (r_temperature rnd) (r_deadlineMs rnd) (r_seed rnd))
                 (update_round roundId (\<lambda>r. r\<lparr>r_startedAt := Some (now e)\<rparr>) s))))"
  by (simp add: startRound_def)

lemma stopRound_found:
  "find (\<lambda>r. r_id r = roundId) (rounds s) = Some rnd \<Longrightarrow>
   stopRound e roundId s =
     (if r_startedAt rnd = None then (Inl (Error ''Round not started''), s)
      else if r_endedAt rnd \<noteq> None then (Inl (Error ''Round already ended''), s)
      else (Inr (rnd\<lparr>r_endedAt := Some (now e)\<rparr>),
            log_line LInfo ''Round stopped''
              (update_round roundId (\<lambda>r. r\<lparr>r_endedAt := Some (now e)\<rparr>) s)))"
  by (simp add: stopRound_def)

text \<open>
  Claim C2. For a round of the store: \<open>startRound\<close> on a round that is not pending
  throws \<open>Round already started\<close>; \<open>stopRound\<close> on a pending round throws
  \<open>Round not started\<close>, on an ended round \<open>Round already ended\<close>; each failing call
  leaves the whole state as it was. A start of a pending round returns the round with the
  start timestamp of the clock and stores it; a stop of an active round does the same
  with the end timestamp.
\<close>

theorem round_lifecycle_failures:
  assumes "find (\<lambda>r. r_id r = roundId) (rounds s) = Some rnd"
  shows "(state_of rnd \<noteq> Pending
            \<longrightarrow> startRound e roundId s = (Inl (Error ''Round already started''), s))
       \<and> (state_of rnd = Pending
            \<longrightarrow> stopRound e roundId s = (Inl (Error ''Round not started''), s))
       \<and> (state_of rnd = Ended
            \<longrightarrow> stopRound e roundId s = (Inl (Error ''Round already ended''), s))
       \<and> (state_of rnd = Pending
            \<longrightarrow> fst (startRound e roundId s) = Inr (rnd\<lparr>r_startedAt := Some (now e)\<rparr>)
              \<and> find (\<lambda>r. r_id r = roundId) (rounds (snd (startRound e roundId s)))
                  = Some (rnd\<lparr>r_startedAt := Some (now e)\<rparr>))
       \<and> (state_of rnd = Active
            \<longrightarrow> fst (stopRound e roundId s) = Inr (rnd\<lparr>r_endedAt := Some (now e)\<rparr>)
              \<and> find (\<lambda>r. r_id r = roundId) (rounds (snd (stopRound e roundId s)))
                  = Some (rnd\<lparr>r_endedAt := Some (now e)\<rparr>))"
proof (intro conjI impI)
  note st = startRound_found [OF assms, of e]
  note sp = stopRound_found [OF assms, of e]
  show "startRound e roundId s = (Inl (Error ''Round already started''), s)"
    if "state_of rnd \<noteq> Pending"
    using that by (simp add: st state_of_def split: if_splits)
  show "stopRound e roundId s = (Inl (Error ''Round not started''), s)"
    if "state_of rnd = Pending"
    using that by (simp add: sp state_of_def split: if_splits)
  show "stopRound e roundId s = (Inl (Error ''Round already ended''), s)"
    if "state_of rnd = Ended"
    using that by (simp add: sp state_of_def split: if_splits)
  show "fst (startRound e roundId s) = Inr (rnd\<lparr>r_startedAt := Some (now e)\<rparr>)"
    if "state_of rnd = Pending"
    using that by (simp add: st state_of_def split: if_splits)
  show "find (\<lambda>r. r_id r = roundId) (rounds (snd (startRound e roundId s)))
          = Some (rnd\<lparr>r_startedAt := Some (now e)\<rparr>)"
    if "state_of rnd = Pending"
    using that assms
    by (simp add: st state_of_def rounds_log_line rounds_broadcast find_rounds_update_round
          split: if_splits)
  show "fst (stopRound e roundId s) = Inr (rnd\<lparr>r_endedAt := Some (now e)\<rparr>)"
    if "state_of rnd = Active"
    using that by (simp add: sp state_of_def split: if_splits)
  show "find (\<lambda>r. r_id r = roundId) (rounds (snd (stopRound e roundId s)))
          = Some (rnd\<lparr>r_endedAt := Some (now e)\<rparr>)"
    if "state_of rnd = Active"
    using that assms
    by (simp add: sp state_of_def rounds_log_line find_rounds_update_round split: if_splits)
qed

lemma rounds_round_pending: "rounds round_pending = [the_round]"
  by (simp add: round_pending_def createRound_def one_session_def initial_state_def
        round_params_def session_rounds_def log_line_def the_round_def Let_def)

lemma find_round_pending:
  "find (\<lambda>r. r_id r = ''r1'') (rounds round_pending) = Some the_round"
  by (simp add: rounds_round_pending) (simp add: the_round_def)

lemma state_of_the_round: "state_of the_round = Pending"
  by (simp add: state_of_def the_round_def)

lemma rounds_round_active:
  "rounds round_active = [the_round\<lparr>r_startedAt := Some 5\<rparr>]"
  by (simp add: round_active_def startRound_found [OF find_round_pending] rounds_log_line
        rounds_broadcast update_round_def rounds_round_pending plain_env_def)
     (simp add: the_round_def)

lemma find_round_active:
  "find (\<lambda>r. r_id r = ''r1'') (rounds round_active) = Some (the_round\<lparr>r_startedAt := Some 5\<rparr>)"
  by (simp add: rounds_round_active) (simp add: the_round_def)

lemma rounds_round_ended:
  "rounds round_ended = [the_round\<lparr>r_startedAt := Some 5, r_endedAt := Some 9\<rparr>]"
  by (simp add: round_ended_def stopRound_found [OF find_round_active] rounds_log_line
        update_round_def rounds_round_active plain_env_def)
     (simp add: the_round_def)

lemma find_round_ended:
  "find (\<lambda>r. r_id r = ''r1'') (rounds round_ended)
     = Some (the_round\<lparr>r_startedAt := Some 5, r_endedAt := Some 9\<rparr>)"
  by (simp add: rounds_round_ended) (simp add: the_round_def)

theorem round_lifecycle_failures_witness:
  "stopRound plain_env ''r1'' round_pending = (Inl (Error ''Round not started''), round_pending)
   \<and> fst (startRound plain_env ''r1'' round_pending) = Inr (the_round\<lparr>r_startedAt := Some 0\<rparr>)
   \<and> startRound plain_env ''r1'' round_active
       = (Inl (Error ''Round already started''), round_active)
   \<and> fst (stopRound plain_env ''r1'' round_active)
       = Inr (the_round\<lparr>r_startedAt := Some 5, r_endedAt := Some 0\<rparr>)
   \<and> startRound plain_env ''r1'' round_ended
       = (Inl (Error ''Round already started''), round_ended)
   \<and> stopRound plain_env ''r1'' round_ended
       = (Inl (Error ''Round already ended''), round_ended)"
proof -
  have p: "state_of the_round = Pending"
    by (rule state_of_the_round)
  have a: "state_of (the_round\<lparr>r_startedAt := Some 5\<rparr>) = Active"
    by (simp add: state_of_def the_round_def)
  have d: "state_of (the_round\<lparr>r_startedAt := Some 5, r_endedAt := Some 9\<rparr>) = Ended"
    by (simp add: state_of_def the_round_def)
  have n: "now plain_env = 0"
    by (simp add: plain_env_def)
  note P = round_lifecycle_failures [OF find_round_pending, of plain_env]
  note A = round_lifecycle_failures [OF find_round_active, of plain_env]
  note D = round_lifecycle_failures [OF find_round_ended, of plain_env]
  from P p have 1: "stopRound plain_env ''r1'' round_pending
                      = (Inl (Error ''Round not started''), round_pending)"
    by simp
  from P p n have 2: "fst (startRound plain_env ''r1'' round_pending)
                      = Inr (the_round\<lparr>r_startedAt := Some 0\<rparr>)"
    by simp
  from A a have 3: "startRound plain_env ''r1'' round_active
                      = (Inl (Error ''Round already started''), round_active)"
    by simp
  from A a n have 4: "fst (stopRound plain_env ''r1'' round_active)
                      = Inr (the_round\<lparr>r_startedAt := Some 5, r_endedAt := Some 0\<rparr>)"
    by simp
  from D d have 5: "startRound plain_env ''r1'' round_ended
                      = (Inl (Error ''Round already started''), round_ended)"
    by simp
  from D d have 6: "stopRound plain_env ''r1'' round_ended
                      = (Inl (Error ''Round already ended''), round_ended)"
    by simp
  from 1 2 3 4 5 6 show ?thesis by blast
qed

section \<open>Creating rounds\<close>

lemma find_session_id:
  "find (\<lambda>x. s_id x = sessionId) ss = Some session \<Longrightarrow> s_id session = sessionId"
  by (induction ss) (simp_all split: if_splits)

lemma createRound_found:
  assumes "find (\<lambda>x. s_id x = cr_sessionId params) (sessions s) = Some session"
  shows "createRound newId params s =
     (Inr \<lparr>r_id = newId, r_sessionId = cr_sessionId params,
           r_index = real (length (session_rounds (cr_sessionId params) s)) + 1,
           r_prompt = cr_prompt params,
           r_maxTokens = (case cr_maxTokens params of None \<Rightarrow> 400 | Some v \<Rightarrow> v),
           r_temperature = (case cr_temperature params of None \<Rightarrow> 0.8 | Some v \<Rightarrow> v),
           r_deadlineMs = (case cr_deadlineMs params of None \<Rightarrow> 90000 | Some v \<Rightarrow> v),
           r_seed = cr_seed params,
           r_svgMode = (case cr_svgMode params of None \<Rightarrow> False | Some v \<Rightarrow> v),
           r_startedAt = None, r_endedAt = None\<rparr>,
      log_line LInfo ''Round created''
        (s\<lparr>rounds := rounds s @
           [\<lparr>r_id = newId, r_sessionId = cr_sessionId params,
             r_index = real (length (session_rounds (cr_sessionId params) s)) + 1,
             r_prompt = cr_prompt params,
             r_maxTokens = (case cr_maxTokens params of None \<Rightarrow> 400 | Some v \<Rightarrow> v),
             r_temperature = (case cr_temperature params of None \<Rightarrow> 0.8 | Some v \<Rightarrow> v),
             r_deadlineMs = (case cr_deadlineMs params of None \<Rightarrow> 90000 | Some v \<Rightarrow> v),
             r_seed = cr_seed params,
             r_svgMode = (case cr_svgMode params of None \<Rightarrow> False | Some v \<Rightarrow> v),
             r_startedAt = None, r_endedAt = None\<rparr>]\<rparr>))"
  using assms find_session_id [OF assms] by (simp add: createRound_def Let_def)

lemma upt_real_Suc: "map real [1..<Suc (Suc k)] = map real [1..<Suc k] @ [real k + 1]"
  by simp

text \<open>
  Claim C7, as stated: \<open>createRound\<close> fails unless the session exists and is active.
  It fails for the second half: in a store whose only session has ended, the round is
  created, with index 1.
\<close>

theorem create_round_active_counterexample:
  "map s_status (sessions ended_session) = [''ended'']
   \<and> fst (createRound ''r1'' (round_params ''s0'') ended_session)
       = Inr (the_round\<lparr>r_sessionId := ''s0''\<rparr>)
   \<and> rounds (snd (createRound ''r1'' (round_params ''s0'') ended_session))
       = [the_round\<lparr>r_sessionId := ''s0''\<rparr>]"
  by (simp add: createRound_def Let_def ended_session_def initial_state_def round_params_def
        session_rounds_def log_line_def the_round_def)

text \<open>
  Claim C7, amended: \<open>createRound\<close> requires the session to exist, whatever its status,
  and throws \<open>Session not found\<close> otherwise, leaving the state as it was. The new round
  gets the number of rounds the session has, plus one, as its index, and neither a start
  nor an end timestamp (it is pending); it is added to the store. So while no round is
  removed from the store (no operation of the manager removes one), the indexes of a
  session are 1, 2, ..., in the order of creation, and the new index is a fresh one.
\<close>

theorem create_round_next_index:
  "(find (\<lambda>x. s_id x = cr_sessionId params) (sessions s) = None
      \<longrightarrow> createRound newId params s = (Inl (Error ''Session not found''), s))
   \<and> (find (\<lambda>x. s_id x = cr_sessionId params) (sessions s) = Some session
      \<longrightarrow> (case fst (createRound newId params s) of
             Inl err \<Rightarrow> False
           | Inr rnd \<Rightarrow>
               r_index rnd = real (length (session_rounds (cr_sessionId params) s)) + 1
               \<and> r_sessionId rnd = cr_sessionId params \<and> r_id rnd = newId
               \<and> state_of rnd = Pending \<and> r_startedAt rnd = None \<and> r_endedAt rnd = None
               \<and> rounds (snd (createRound newId params s)) = rounds s @ [rnd])
          \<and> (map r_index (session_rounds (cr_sessionId params) s) = map real [1..<Suc k]
               \<longrightarrow> map r_index
                     (session_rounds (cr_sessionId params) (snd (createRound newId params s)))
                   = map real [1..<Suc (Suc k)]))"
proof (intro conjI impI)
  assume "find (\<lambda>x. s_id x = cr_sessionId params) (sessions s) = None"
  then show "createRound newId params s = (Inl (Error ''Session not found''), s)"
    by (simp add: createRound_def)
next
  assume f: "find (\<lambda>x. s_id x = cr_sessionId params) (sessions s) = Some session"
  show "case fst (createRound newId params s) of
             Inl err \<Rightarrow> False
           | Inr rnd \<Rightarrow>
               r_index rnd = real (length (session_rounds (cr_sessionId params) s)) + 1
               \<and> r_sessionId rnd = cr_sessionId params \<and> r_id rnd = newId
               \<and> state_of rnd = Pending \<and> r_startedAt rnd = None \<and> r_endedAt rnd = None
               \<and> rounds (snd (createRound newId params s)) = rounds s @ [rnd]"
    by (simp add: createRound_found [OF f] state_of_def log_line_def)
next
  assume f: "find (\<lambda>x. s_id x = cr_sessionId params) (sessions s) = Some session"
    and i: "map r_index (session_rounds (cr_sessionId params) s) = map real [1..<Suc k]"
  from i have "length (map r_index (session_rounds (cr_sessionId params) s))
                 = length (map real [1..<Suc k])"
    by (rule arg_cong)
  then have len: "length (session_rounds (cr_sessionId params) s) = k"
    by simp
  have "map r_index (session_rounds (cr_sessionId params) (snd (createRound newId params s)))
          = map r_index (session_rounds (cr_sessionId params) s) @ [real k + 1]"
    by (simp add: createRound_found [OF f] session_rounds_def log_line_def)
       (simp add: len [unfolded session_rounds_def])
  with i show "map r_index
                 (session_rounds (cr_sessionId params) (snd (createRound newId params s)))
               = map real [1..<Suc (Suc k)]"
    by (simp only: upt_real_Suc)
qed

theorem create_round_next_index_witness:
  "createRound ''r1'' (round_params ''zz'') one_session
     = (Inl (Error ''Session not found''), one_session)
   \<and> map r_index (session_rounds ''s1'' (snd (createRound ''r1'' (round_params ''s1'') one_session)))
       = [1]
   \<and> map r_index (session_rounds ''s1'' (snd (createRound ''r2'' (round_params ''s1'') round_pending)))
       = [1, 2]"
proof -
  have p: "cr_sessionId (round_params sid) = sid" for sid
    by (simp add: round_params_def)
  have z: "find (\<lambda>x. s_id x = ''zz'') (sessions one_session) = None"
    by (simp add: one_session_def initial_state_def)
  have f: "find (\<lambda>x. s_id x = ''s1'') (sessions one_session)
             = Some \<lparr>s_id = ''s1'', s_pinHash = ''123456'', s_status = ''active'',
                     s_createdAt = 0\<rparr>"
    by (simp add: one_session_def initial_state_def)
  have f': "find (\<lambda>x. s_id x = ''s1'') (sessions round_pending)
             = Some \<lparr>s_id = ''s1'', s_pinHash = ''123456'', s_status = ''active'',
                     s_createdAt = 0\<rparr>"
    by (simp add: round_pending_def createRound_def Let_def log_line_def p f)
  have i0: "map r_index (session_rounds ''s1'' one_session) = map real [1..<Suc 0]"
    by (simp add: session_rounds_def one_session_def initial_state_def)
  have i1: "map r_index (session_rounds ''s1'' round_pending) = map real [1..<Suc 1]"
    by (simp add: session_rounds_def rounds_round_pending) (simp add: the_round_def)
  have u1: "map real [1..<Suc (Suc 0)] = [1]"
    by simp
  have u2: "map real [1..<Suc (Suc 1)] = [1, 2]"
    by (simp add: upt_rec)
  from create_round_next_index [of "round_params ''zz''" one_session "''r1''"] z
  have 1: "createRound ''r1'' (round_params ''zz'') one_session
             = (Inl (Error ''Session not found''), one_session)"
    by (simp add: p)
  from create_round_next_index [where params = "round_params ''s1''" and s = one_session
         and newId = "''r1''" and k = 0] f i0
  have 2: "map r_index
             (session_rounds ''s1'' (snd (createRound ''r1'' (round_params ''s1'') one_session)))
           = map real [1..<Suc (Suc 0)]"
    by (simp only: p)
  from create_round_next_index [where params = "round_params ''s1''" and s = round_pending
         and newId = "''r2''" and k = 1] f' i1
  have 3: "map r_index
             (session_rounds ''s1'' (snd (createRound ''r2'' (round_params ''s1'') round_pending)))
           = map real [1..<Suc (Suc 1)]"
    by (simp only: p)
  from 1 2 3 show ?thesis
    by (simp only: u1 u2)
qed

section \<open>The registry of connections\<close>

lemma map_of_map_set: "map_of (map_set k v xs) = (map_of xs)(k \<mapsto> v)"
  by (induction xs) (auto simp: fun_eq_iff)

lemma keys_map_set:
  "map fst (map_set k v xs) = (if k \<in> set (map fst xs) then map fst xs else map fst xs @ [k])"
  by (induction xs) auto

lemma distinct_map_set: "distinct (map fst xs) \<Longrightarrow> distinct (map fst (map_set k v xs))"
  by (simp add: keys_map_set)

lemma connections_reply: "connections (reply e ws message s) = connections s"
  by (simp add: reply_def registration_failed_def ws_send_def log_line_def)

lemma connections_registration_failed: "connections (registration_failed e ws s) = connections s"
  by (simp add: registration_failed_def ws_send_def log_line_def)

lemma sessions_handleRegister: "sessions (handleRegister e connId ws m s) = sessions s"
  by (simp add: handleRegister_def reply_def registration_failed_def ws_send_def log_line_def
        split: option.splits)

lemma connections_handleRegister:
  "connections (handleRegister e connId ws m s) =
     (case findFirstActiveSession (sessions s) of
        None \<Rightarrow> connections s
      | Some session \<Rightarrow>
          if pinValid e (reg_pin m) (s_pinHash session) \<and> \<not> upsertThrows e
          then map_set connId
                 \<lparr>pc_participantId = reg_participant_id m, pc_sessionId = s_id session,
                  pc_ws = ws, pc_lastSeq = Map.empty, pc_lastSeen = now e\<rparr>
                 (connections s)
          else connections s)"
  by (simp add: handleRegister_def connections_reply connections_registration_failed
        log_line_def split: option.splits)

lemma sent_handleRegister_ok:
  "findFirstActiveSession (sessions s) = Some session \<Longrightarrow>
   pinValid e (reg_pin m) (s_pinHash session) \<Longrightarrow> \<not> upsertThrows e \<Longrightarrow> \<not> sendThrows e ws \<Longrightarrow>
   sent (handleRegister e connId ws m s) = sent s @ [(ws, Registered (s_id session))]"
  by (simp add: handleRegister_def reply_def ws_send_def log_line_def)

lemma findFirstActiveSession_alice_bound:
  "findFirstActiveSession (sessions alice_bound) =
     Some \<lparr>s_id = ''s1'', s_pinHash = ''123456'', s_status = ''active'', s_createdAt = 0\<rparr>"
  by (simp add: alice_bound_def sessions_handleRegister findFirstActiveSession_one_session)

lemma connections_alice_twice:
  "connections alice_twice =
     [(''conn-1'', \<lparr>pc_participantId = ''alice'', pc_sessionId = ''s1'', pc_ws = ''ws-1'',
                    pc_lastSeq = Map.empty, pc_lastSeen = 0\<rparr>),
      (''conn-2'', \<lparr>pc_participantId = ''alice'', pc_sessionId = ''s1'', pc_ws = ''ws-2'',
                    pc_lastSeq = Map.empty, pc_lastSeen = 0\<rparr>)]"
  by (simp add: alice_twice_def connections_handleRegister findFirstActiveSession_alice_bound
        connections_alice_bound plain_env_def register_of_def)

lemma connections_conn1_again:
  "connections conn1_again =
     [(''conn-1'', \<lparr>pc_participantId = ''bob'', pc_sessionId = ''s1'', pc_ws = ''ws-1'',
                    pc_lastSeq = Map.empty, pc_lastSeen = 0\<rparr>)]"
  by (simp add: conn1_again_def connections_handleRegister findFirstActiveSession_alice_bound
        connections_alice_bound plain_env_def register_of_def)

lemma sent_conn1_again:
  "sent conn1_again = [(''ws-1'', Registered ''s1''), (''ws-1'', Registered ''s1'')]"
proof -
  have "sent conn1_again = sent alice_bound @ [(''ws-1'', Registered ''s1'')]"
    unfolding conn1_again_def
    using sent_handleRegister_ok [OF findFirstActiveSession_alice_bound,
            of plain_env "register_of ''bob''" "''ws-1''" "''conn-1''"]
    by (simp add: plain_env_def register_of_def)
  then show ?thesis by (simp add: sent_alice_bound)
qed

text \<open>
  Claim C5, as stated: a bind on a bound connection fails with \<open>DuplicateBinding\<close>, and
  a bind removes the connection bound to the same participant before. Both fail: a
  second registration on \<open>conn-1\<close> is answered \<open>registered\<close> and replaces the binding,
  and after \<open>alice\<close> registers on \<open>conn-2\<close> she is bound on \<open>conn-1\<close> and on \<open>conn-2\<close>.
\<close>

theorem duplicate_binding_counterexample:
  "map (\<lambda>kv. (fst kv, pc_participantId (snd kv))) (connections alice_bound)
     = [(''conn-1'', ''alice'')]
   \<and> map (\<lambda>kv. (fst kv, pc_participantId (snd kv))) (connections conn1_again)
       = [(''conn-1'', ''bob'')]
   \<and> sent conn1_again = [(''ws-1'', Registered ''s1''), (''ws-1'', Registered ''s1'')]
   \<and> map (\<lambda>kv. (fst kv, pc_participantId (snd kv))) (connections alice_twice)
       = [(''conn-1'', ''alice''), (''conn-2'', ''alice'')]"
  by (simp add: connections_alice_bound connections_conn1_again sent_conn1_again
        connections_alice_twice)

text \<open>
  Claim C5, amended: the registry is keyed by the connection. A registration that passes
  the session and PIN checks binds its connection to the participant of the message,
  replacing the binding the connection had, if any, and is answered \<open>registered\<close>; the
  bindings of all other connections stay, also those of the same participant. So each
  connection is bound at most once after any sequence of registrations, while a
  participant may be bound on several connections.
\<close>

theorem register_binds_connection:
  "(distinct (map fst (connections s))
      \<longrightarrow> distinct (map fst (connections (handleRegister e connId ws m s))))
   \<and> (findFirstActiveSession (sessions s) = Some session
        \<and> pinValid e (reg_pin m) (s_pinHash session) \<and> \<not> upsertThrows e
      \<longrightarrow> map_of (connections (handleRegister e connId ws m s))
            = (map_of (connections s))
                (connId \<mapsto> \<lparr>pc_participantId = reg_participant_id m,
                             pc_sessionId = s_id session, pc_ws = ws,
                             pc_lastSeq = Map.empty, pc_lastSeen = now e\<rparr>)
          \<and> (\<not> sendThrows e ws
               \<longrightarrow> sent (handleRegister e connId ws m s)
                     = sent s @ [(ws, Registered (s_id session))]))"
proof (intro conjI impI)
  assume "distinct (map fst (connections s))"
  then show "distinct (map fst (connections (handleRegister e connId ws m s)))"
    by (simp add: connections_handleRegister distinct_map_set split: option.splits)
next
  assume a: "findFirstActiveSession (sessions s) = Some session
               \<and> pinValid e (reg_pin m) (s_pinHash session) \<and> \<not> upsertThrows e"
  then show "map_of (connections (handleRegister e connId ws m s))
            = (map_of (connections s))
                (connId \<mapsto> \<lparr>pc_participantId = reg_participant_id m,
                             pc_sessionId = s_id session, pc_ws = ws,
                             pc_lastSeq = Map.empty, pc_lastSeen = now e\<rparr>)"
    by (simp add: connections_handleRegister map_of_map_set)
  assume "\<not> sendThrows e ws"
  with a show "sent (handleRegister e connId ws m s) = sent s @ [(ws, Registered (s_id session))]"
    by (simp add: sent_handleRegister_ok)
qed

theorem register_binds_connection_witness:
  "distinct (map fst (connections alice_twice))
   \<and> map_option pc_participantId (map_of (connections alice_twice) ''conn-1'') = Some ''alice''
   \<and> map_option pc_participantId (map_of (connections alice_twice) ''conn-2'') = Some ''alice''
   \<and> sent alice_twice = [(''ws-1'', Registered ''s1''), (''ws-2'', Registered ''s1'')]"
proof -
  note T = register_binds_connection
             [where s = alice_bound and e = plain_env and connId = "''conn-2''"
                and ws = "''ws-2''" and m = "register_of ''alice''"
                and session = "\<lparr>s_id = ''s1'', s_pinHash = ''123456'', s_status = ''active'',
                                 s_createdAt = 0\<rparr>",
              folded alice_twice_def]
  have d: "distinct (map fst (connections alice_bound))"
    by (simp add: connections_alice_bound)
  have h: "findFirstActiveSession (sessions alice_bound)
             = Some \<lparr>s_id = ''s1'', s_pinHash = ''123456'', s_status = ''active'',
                     s_createdAt = 0\<rparr>
           \<and> pinValid plain_env (reg_pin (register_of ''alice'')) (s_pinHash
                \<lparr>s_id = ''s1'', s_pinHash = ''123456'', s_status = ''active'', s_createdAt = 0\<rparr>)
           \<and> \<not> upsertThrows plain_env"
    by (simp add: findFirstActiveSession_alice_bound plain_env_def register_of_def)
  have t: "\<not> sendThrows plain_env ''ws-2''"
    by (simp add: plain_env_def)
  from T d have 1: "distinct (map fst (connections alice_twice))"
    by blast
  from T h have 2: "map_of (connections alice_twice)
            = (map_of (connections alice_bound))
                (''conn-2'' \<mapsto> \<lparr>pc_participantId = reg_participant_id (register_of ''alice''),
                             pc_sessionId = ''s1'', pc_ws = ''ws-2'',
                             pc_lastSeq = Map.empty, pc_lastSeen = now plain_env\<rparr>)"
    by simp
  from T h t have 3: "sent alice_twice = sent alice_bound @ [(''ws-2'', Registered ''s1'')]"
    by simp
  from 1 2 3 show ?thesis
    by (simp add: connections_alice_bound sent_alice_bound register_of_def)
qed

section \<open>Broadcast\<close>

lemma sent_log_line: "sent (log_line lvl txt s) = sent s"
  by (simp add: log_line_def)

lemma sent_send_all:
  "sent (send_all e payload conns s) =
     sent s @ map (\<lambda>c. (pc_ws c, payload)) (filter (\<lambda>c. \<not> sendThrows e (pc_ws c)) conns)"
  by (induction conns arbitrary: s) (simp_all add: sent_log_line)

lemma logged_send_all:
  "logged (send_all e payload conns s) =
     logged s @ map (\<lambda>c. LogLine LError ''Broadcast failed'')
                  (filter (\<lambda>c. sendThrows e (pc_ws c)) conns)"
  by (induction conns arbitrary: s) (simp_all add: log_line_def)

lemma connections_send_all: "connections (send_all e payload conns s) = connections s"
  by (induction conns arbitrary: s) (simp_all add: log_line_def)

lemma connections_three_bound:
  "connections three_bound =
     [(''conn-1'', \<lparr>pc_participantId = ''alice'', pc_sessionId = ''s1'', pc_ws = ''ws-1'',
                    pc_lastSeq = Map.empty, pc_lastSeen = 0\<rparr>),
      (''conn-2'', \<lparr>pc_participantId = ''bob'', pc_sessionId = ''s1'', pc_ws = ''ws-2'',
                    pc_lastSeq = Map.empty, pc_lastSeen = 0\<rparr>),
      (''conn-3'', \<lparr>pc_participantId = ''carol'', pc_sessionId = ''s1'', pc_ws = ''ws-3'',
                    pc_lastSeq = Map.empty, pc_lastSeen = 0\<rparr>)]"
  by (simp add: three_bound_def connections_handleRegister sessions_handleRegister
        findFirstActiveSession_alice_bound connections_alice_bound plain_env_def register_of_def)

text \<open>
  Claim C9. \<open>broadcast\<close> makes the payload once and goes through all connections of
  the registry in order: the frames it writes are that payload, once for each connection
  whose \<open>send\<close> does not throw; a \<open>send\<close> that throws adds one log line and neither
  stops the loop nor changes the registry.
\<close>

theorem broadcast_isolates_failures:
  "sent (broadcast e message s) =
     sent s @ map (\<lambda>c. (pc_ws c, message))
                (filter (\<lambda>c. \<not> sendThrows e (pc_ws c)) (map snd (connections s)))
   \<and> logged (broadcast e message s) =
       logged s @ map (\<lambda>c. LogLine LError ''Broadcast failed'')
                    (filter (\<lambda>c. sendThrows e (pc_ws c)) (map snd (connections s)))
   \<and> connections (broadcast e message s) = connections s"
  by (simp add: broadcast_def sent_send_all logged_send_all connections_send_all)

theorem broadcast_isolates_failures_witness:
  "map fst (connections three_bound) = [''conn-1'', ''conn-2'', ''conn-3'']
   \<and> sent (broadcast ws2_throws (Heartbeat 7) three_bound) =
       sent three_bound @ [(''ws-1'', Heartbeat 7), (''ws-3'', Heartbeat 7)]
   \<and> logged (broadcast ws2_throws (Heartbeat 7) three_bound) =
       logged three_bound @ [LogLine LError ''Broadcast failed'']"
  using broadcast_isolates_failures [of ws2_throws "Heartbeat 7" three_bound]
  by (simp add: connections_three_bound ws2_throws_def)

section \<open>Votes\<close>

lemma is_integer_Ints: "is_integer x = (x \<in> \<int>)"
proof
  assume "is_integer x"
  then have "of_int \<lfloor>x\<rfloor> = x" unfolding is_integer_def .
  then have "x = of_int \<lfloor>x\<rfloor>" by (rule sym)
  then show "x \<in> \<int>" by (metis Ints_of_int)
next
  assume "x \<in> \<int>"
  then show "is_integer x" unfolding is_integer_def by (rule Ints_cases) simp
qed

text \<open>
  What the route adds: the schema takes every number from 1 to 5, integer or not, and
  passes it to \<open>castVote\<close>; a number outside is refused by the schema itself.
\<close>

lemma post_votes_schema:
  "post_votes h ip body s =
     (if 1 \<le> vb_score body \<and> vb_score body \<le> 5
      then castVote h \<lparr>cv_roundId = vb_roundId body, cv_voterId = ip,
                        cv_participantId = vb_participantId body, cv_score = vb_score body\<rparr> s
      else (Inl ZodError, s))"
  by (simp add: post_votes_def CastVoteSchema_def)

lemma seven_halves_not_integer: "\<not> is_integer (7 / 2)"
proof -
  have "\<lfloor>7 / 2 :: real\<rfloor> = 3" by linarith
  then show ?thesis by (simp add: is_integer_def)
qed

lemma post_votes_half: "post_votes h ip (body_of (7 / 2)) s = (Inl InvalidScore, s)"
  by (simp add: post_votes_schema body_of_def castVote_def seven_halves_not_integer)

text \<open>
  Claim C6. \<open>castVote\<close> answers \<open>InvalidScore\<close> exactly for the scores that are not an
  integer from 1 to 5, and then leaves the state as it was; an integer from 1 to 5, for a
  round of the store, is accepted and recorded.
\<close>

theorem cast_vote_invalid_score:
  "(fst (castVote h v s) = Inl InvalidScore)
     = (\<not> (cv_score v \<in> \<int> \<and> 1 \<le> cv_score v \<and> cv_score v \<le> 5))
   \<and> (\<not> (cv_score v \<in> \<int> \<and> 1 \<le> cv_score v \<and> cv_score v \<le> 5)
        \<longrightarrow> castVote h v s = (Inl InvalidScore, s))
   \<and> (cv_score v \<in> \<int> \<and> 1 \<le> cv_score v \<and> cv_score v \<le> 5
       \<and> find (\<lambda>r. r_id r = cv_roundId v) (rounds s) \<noteq> None
        \<longrightarrow> fst (castVote h v s) = Inr (cv_score v)
          \<and> votes (snd (castVote h v s)) (cv_roundId v, h (cv_voterId v), cv_participantId v)
              = Some (cv_score v))"
  by (simp add: castVote_def is_integer_Ints)

theorem cast_vote_invalid_score_witness:
  "castVote id (vote_of (7 / 2)) round_pending = (Inl InvalidScore, round_pending)
   \<and> castVote id (vote_of 0) round_pending = (Inl InvalidScore, round_pending)
   \<and> castVote id (vote_of 6) round_pending = (Inl InvalidScore, round_pending)
   \<and> fst (castVote id (vote_of 1) round_pending) = Inr 1
   \<and> fst (castVote id (vote_of 2) round_pending) = Inr 2
   \<and> fst (castVote id (vote_of 3) round_pending) = Inr 3
   \<and> fst (castVote id (vote_of 4) round_pending) = Inr 4
   \<and> fst (castVote id (vote_of 5) round_pending) = Inr 5"
proof -
  have h: "(7 / 2 :: real) \<notin> \<int>"
    using seven_halves_not_integer unfolding is_integer_Ints .
  have f: "find (\<lambda>r. r_id r = cv_roundId (vote_of x)) (rounds round_pending) \<noteq> None" for x
    by (simp add: vote_of_def find_round_pending)
  have c: "cv_score (vote_of x) = x" for x
    by (simp add: vote_of_def)
  from cast_vote_invalid_score [of id "vote_of (7 / 2)" round_pending] h
  have 1: "castVote id (vote_of (7 / 2)) round_pending = (Inl InvalidScore, round_pending)"
    by (simp add: c)
  from cast_vote_invalid_score [of id "vote_of 0" round_pending]
  have 2: "castVote id (vote_of 0) round_pending = (Inl InvalidScore, round_pending)"
    by (simp add: c)
  from cast_vote_invalid_score [of id "vote_of 6" round_pending]
  have 3: "castVote id (vote_of 6) round_pending = (Inl InvalidScore, round_pending)"
    by (simp add: c)
  from cast_vote_invalid_score [of id "vote_of 1" round_pending] f [of 1]
  have 4: "fst (castVote id (vote_of 1) round_pending) = Inr 1"
    by (simp add: c)
  from cast_vote_invalid_score [of id "vote_of 2" round_pending] f [of 2]
  have 5: "fst (castVote id (vote_of 2) round_pending) = Inr 2"
    by (simp add: c)
  from cast_vote_invalid_score [of id "vote_of 3" round_pending] f [of 3]
  have 6: "fst (castVote id (vote_of 3) round_pending) = Inr 3"
    by (simp add: c)
  from cast_vote_invalid_score [of id "vote_of 4" round_pending] f [of 4]
  have 7: "fst (castVote id (vote_of 4) round_pending) = Inr 4"
    by (simp add: c)
  from cast_vote_invalid_score [of id "vote_of 5" round_pending] f [of 5]
  have 8: "fst (castVote id (vote_of 5) round_pending) = Inr 5"
    by (simp add: c)
  from 1 2 3 4 5 6 7 8 show ?thesis by blast
qed

section \<open>Rounding to binary64\<close>

text \<open>\<open>rne\<close> rounds to a nearest integer.\<close>

lemma rne_nearest: "\<bar>of_int (rne x) - x\<bar> \<le> 1 / 2"
  unfolding rne_def Let_def by (auto simp: abs_le_iff)










lemma tpsAvg_null: "d \<le> 0 \<Longrightarrow> tpsAvg n d = None"
  by (simp add: tpsAvg_def)

section \<open>Completion metrics\<close>










end
